theory Spec2Isabelle
  imports Main
begin

section \<open>Values shared by the components\<close>

text \<open>
  A value of type \<^verbatim>\<open>T | null | undefined\<close>. An optional prop that cannot be \<^verbatim>\<open>null\<close> is
  an \<open>option\<close> instead, \<open>None\<close> standing for \<^verbatim>\<open>undefined\<close> (the prop left out).
\<close>

datatype 'a nullable = Undefined | Null | Defined 'a

text \<open>
  Truthiness of a \<^verbatim>\<open>string | null | undefined\<close>: a string is truthy when it is not empty,
  \<^verbatim>\<open>null\<close> and \<^verbatim>\<open>undefined\<close> are falsy.
\<close>

fun truthy :: "string nullable \<Rightarrow> bool" where
  "truthy Undefined = False"
| "truthy Null = False"
| "truthy (Defined s) = (s \<noteq> [])"

fun of_optional :: "'a option \<Rightarrow> 'a nullable" where
  "of_optional None = Undefined"
| "of_optional (Some x) = Defined x"

text \<open>
  Values the components only pass along: dates (as epoch milliseconds), locale objects,
  React nodes, z-index objects and callbacks the components forward without calling them
  (all by an identifier), and refs.
\<close>

type_synonym date = int
type_synonym Locale = string
type_synonym ReactNode = string
type_synonym Indexable = nat
type_synonym callback = nat

datatype ref = innerInputRef | callerRef nat

section \<open>TextField/IconButtonEnd.tsx: data\<close>

text \<open>
  The module \<^verbatim>\<open>../keyCodes\<close> is imported by the component, but its constants are not
  among the sources at hand, so the three key codes the handler reads are a parameter.
\<close>

record keyCodes =
  ENTER :: int
  SPACE :: int
  TAB :: int

text \<open>The part of a DOM keyboard event the handler reads and writes.\<close>

record keyboard_event =
  keyCode :: int
  defaultPrevented :: bool

definition preventDefault :: "keyboard_event \<Rightarrow> keyboard_event" where
  "preventDefault event = event\<lparr>defaultPrevented := True\<rparr>"

datatype hoverStyle = hoverStyle_default | hoverStyle_none

datatype icon = arrow_down | cancel | eye | eye_hide | compact_chevron_down | compact_cancel

datatype role = switch

datatype bgColor = lightGray | transparent

text \<open>
  The props of \<^verbatim>\<open>IconButtonEnd\<close>. The callback \<^verbatim>\<open>onClick: () => void\<close> acts on the
  caller's world, of type \<open>'c\<close>, and is taken to return normally.
\<close>

record 'c IconButtonEnd_Props =
  accessibilityChecked :: "bool option"
  accessibilityHidden :: "bool option"
  accessibilityLabel :: "string option"
  hoverStyle :: "hoverStyle option"
  icon :: icon
  onClick :: "'c \<Rightarrow> 'c"
  pogPadding :: "nat option"
  role :: "role option"
  tapStyle :: "string option"
  tooltipText :: "string option"

text \<open>
  One mounted \<^verbatim>\<open>IconButtonEnd\<close>: the \<^verbatim>\<open>useState(false)\<close> cell \<open>focused\<close> and, beside
  it, the caller's world, which only \<open>onClick\<close> changes.
\<close>

record 'c mounted =
  focused :: bool
  caller :: 'c

definition mount :: "'c \<Rightarrow> 'c mounted" where
  "mount c = \<lparr>focused = False, caller = c\<rparr>"

definition setFocused :: "bool \<Rightarrow> 'c mounted \<Rightarrow> 'c mounted" where
  "setFocused b s = s\<lparr>focused := b\<rparr>"

definition invoke :: "('c \<Rightarrow> 'c) \<Rightarrow> 'c mounted \<Rightarrow> 'c mounted" where
  "invoke f s = s\<lparr>caller := f (caller s)\<rparr>"

text \<open>
  The rendered elements, each with the props the component gives it. String-valued
  attributes are strings; \<open>div_className\<close> holds the name of the class
  \<^verbatim>\<open>styles.actionButtonContainer\<close>, and \<open>tapStyle\<close>, whose type is read off
  \<^verbatim>\<open>TapArea\<close>, is a string as well.
\<close>

record Pog =
  pog_accessibilityLabel :: string
  pog_bgColor :: bgColor
  pog_icon :: icon
  pog_iconColor :: string
  pog_padding :: nat
  pog_size :: string

record 'c TapArea =
  ta_accessibilityChecked :: "bool option"
  ta_accessibilityLabel :: "string option"
  ta_onBlur :: "'c mounted \<Rightarrow> 'c mounted"
  ta_onFocus :: "'c mounted \<Rightarrow> 'c mounted"
  ta_onKeyDown :: "keyboard_event \<Rightarrow> 'c mounted \<Rightarrow> keyboard_event \<times> 'c mounted"
  ta_onMouseEnter :: "'c mounted \<Rightarrow> 'c mounted"
  ta_onMouseLeave :: "'c mounted \<Rightarrow> 'c mounted"
  ta_onTap :: "'c mounted \<Rightarrow> 'c mounted"
  ta_role :: "role option"
  ta_rounding :: string
  ta_tabIndex :: int
  ta_tapStyle :: "string option"
  ta_children :: Pog

text \<open>What \<^verbatim>\<open>MaybeTooltip\<close> returns: a \<^verbatim>\<open>Tooltip\<close> around the children, or the children.\<close>

datatype 'a wrapped =
  is_Tooltip: Tooltip (tt_inline: bool) (tt_text: string) (tt_children: 'a)
| Bare 'a

record 'c Box =
  box_alignItems :: string
  box_aria_hidden :: "bool option"
  box_display :: string
  box_height :: string
  box_marginEnd :: nat
  box_rounding :: string
  box_children :: "'c TapArea wrapped"

record 'c Div =
  div_className :: string
  div_children :: "'c Box"

section \<open>TextField/IconButtonEnd.tsx: the components\<close>

definition MaybeTooltip :: "'a \<Rightarrow> string nullable \<Rightarrow> 'a wrapped" where
  "MaybeTooltip children t =
     (if truthy t
      then (case t of Defined text \<Rightarrow> Tooltip True text children | _ \<Rightarrow> Bare children)
      else Bare children)"

text \<open>The handler given to \<^verbatim>\<open>onKeyDown\<close>: two statements, in the order of the source.\<close>

definition onKeyDown ::
  "keyCodes \<Rightarrow> ('c \<Rightarrow> 'c) \<Rightarrow> keyboard_event \<Rightarrow> 'c mounted \<Rightarrow> keyboard_event \<times> 'c mounted" where
  "onKeyDown kc f event s =
     (let s1 = (if keyCode event \<in> set [ENTER kc, SPACE kc] then invoke f s else s);
          event1 = (if keyCode event \<noteq> TAB kc then preventDefault event else event)
      in (event1, s1))"

definition IconButtonEnd :: "keyCodes \<Rightarrow> 'c IconButtonEnd_Props \<Rightarrow> 'c mounted \<Rightarrow> 'c Div" where
  "IconButtonEnd kc p s =
     (let hoverStyle1 = (case hoverStyle p of None \<Rightarrow> hoverStyle_default | Some h \<Rightarrow> h);
          pogPadding1 = (case pogPadding p of None \<Rightarrow> 1 | Some n \<Rightarrow> n)
      in \<lparr>div_className = ''actionButtonContainer'',
          div_children =
            \<lparr>box_alignItems = ''center'',
             box_aria_hidden = accessibilityHidden p,
             box_display = ''flex'',
             box_height = ''100%'',
             box_marginEnd = 2,
             box_rounding = ''circle'',
             box_children =
               MaybeTooltip
                 \<lparr>ta_accessibilityChecked = accessibilityChecked p,
                  ta_accessibilityLabel = accessibilityLabel p,
                  ta_onBlur = setFocused False,
                  ta_onFocus = setFocused True,
                  ta_onKeyDown = onKeyDown kc (onClick p),
                  ta_onMouseEnter = setFocused True,
                  ta_onMouseLeave = setFocused False,
                  ta_onTap = invoke (onClick p),
                  ta_role = role p,
                  ta_rounding = ''circle'',
                  ta_tabIndex = (if accessibilityHidden p = Some True then - 1 else 0),
                  ta_tapStyle = tapStyle p,
                  ta_children =
                    \<lparr>pog_accessibilityLabel = '''',
                     pog_bgColor =
                       (if focused s \<and> hoverStyle1 = hoverStyle_default
                        then lightGray else transparent),
                     pog_icon = icon p,
                     pog_iconColor = ''darkGray'',
                     pog_padding = pogPadding1,
                     pog_size = ''xs''\<rparr>\<rparr>
                 (of_optional (tooltipText p))\<rparr>\<rparr>)"

text \<open>The tap-target of a rendered \<^verbatim>\<open>IconButtonEnd\<close>, and the background of its \<^verbatim>\<open>Pog\<close>.\<close>

fun unwrap :: "'a wrapped \<Rightarrow> 'a" where
  "unwrap (Tooltip i t c) = c"
| "unwrap (Bare c) = c"

definition tapArea :: "'c Div \<Rightarrow> 'c TapArea" where
  "tapArea d = unwrap (box_children (div_children d))"

definition rendered_bgColor :: "'c Div \<Rightarrow> bgColor" where
  "rendered_bgColor d = pog_bgColor (ta_children (tapArea d))"

section \<open>TextField/IconButtonEnd.tsx: events on the tap-target\<close>

text \<open>
  The events the tap-target has a handler for. An event is delivered to the handler of the
  element rendered from the current state; a key-down arrives with its default not yet
  prevented.
\<close>

datatype ta_event = Focus | Blur | MouseEnter | MouseLeave | KeyDown int | Tap

fun deliver :: "'c TapArea \<Rightarrow> ta_event \<Rightarrow> 'c mounted \<Rightarrow> 'c mounted" where
  "deliver ta Focus s = ta_onFocus ta s"
| "deliver ta Blur s = ta_onBlur ta s"
| "deliver ta MouseEnter s = ta_onMouseEnter ta s"
| "deliver ta MouseLeave s = ta_onMouseLeave ta s"
| "deliver ta (KeyDown k) s = snd (ta_onKeyDown ta \<lparr>keyCode = k, defaultPrevented = False\<rparr> s)"
| "deliver ta Tap s = ta_onTap ta s"

definition step :: "keyCodes \<Rightarrow> 'c IconButtonEnd_Props \<Rightarrow> 'c mounted \<Rightarrow> ta_event \<Rightarrow> 'c mounted" where
  "step kc p s e = deliver (tapArea (IconButtonEnd kc p s)) e s"

definition run :: "keyCodes \<Rightarrow> 'c IconButtonEnd_Props \<Rightarrow> ta_event list \<Rightarrow> 'c \<Rightarrow> 'c mounted" where
  "run kc p evs c = foldl (step kc p) (mount c) evs"

text \<open>
  What the events say about the pointer and the keyboard focus, from a start with the pointer
  outside and the element not focused: the pointer is inside after a mouse-enter until the
  next mouse-leave, and the element holds the focus after a focus until the next blur.
\<close>

definition pointerInside :: "ta_event list \<Rightarrow> bool" where
  "pointerInside evs =
     foldl (\<lambda>b e. if e = MouseEnter then True else if e = MouseLeave then False else b) False evs"

definition holdsFocus :: "ta_event list \<Rightarrow> bool" where
  "holdsFocus evs =
     foldl (\<lambda>b e. if e = Focus then True else if e = Blur then False else b) False evs"

text \<open>
  The focus and hover events of a sequence, and whether the latest of them is a focus or a
  mouse-enter.
\<close>

definition feedback :: "ta_event list \<Rightarrow> ta_event list" where
  "feedback evs = filter (\<lambda>e. e \<in> {Focus, Blur, MouseEnter, MouseLeave}) evs"

definition latestFeedbackEnters :: "ta_event list \<Rightarrow> bool" where
  "latestFeedbackEnters evs = (feedback evs \<noteq> [] \<and> last (feedback evs) \<in> {Focus, MouseEnter})"

text \<open>
  Modelled from the spec: \<^verbatim>\<open>TapArea\<close> and the browser's event dispatch are not among the
  sources at hand. A discrete user action is one pointer click or one key press. A pointer
  click reaches the tap-target as one tap. A key press reaches it as one key-down; the
  synthesized activation of the same press (a tap) is the default action of Enter and of
  Space, so it follows only when the key-down handler has not prevented the default.
\<close>

datatype action = PointerClick | KeyPress int

definition synthesized :: "keyCodes \<Rightarrow> keyboard_event \<Rightarrow> ta_event list" where
  "synthesized kc event =
     (if keyCode event \<in> set [ENTER kc, SPACE kc] \<and> \<not> defaultPrevented event then [Tap] else [])"

fun dispatched :: "keyCodes \<Rightarrow> 'c TapArea \<Rightarrow> action \<Rightarrow> 'c mounted \<Rightarrow> ta_event list" where
  "dispatched kc ta PointerClick s = [Tap]"
| "dispatched kc ta (KeyPress k) s =
     KeyDown k # synthesized kc (fst (ta_onKeyDown ta \<lparr>keyCode = k, defaultPrevented = False\<rparr> s))"

definition perform :: "keyCodes \<Rightarrow> 'c IconButtonEnd_Props \<Rightarrow> action \<Rightarrow> 'c mounted \<Rightarrow> 'c mounted" where
  "perform kc p a s = foldl (step kc p) s (dispatched kc (tapArea (IconButtonEnd kc p s)) a s)"

text \<open>Inputs used in the examples below: the DOM key codes, and a callback that counts.\<close>

abbreviation example_keyCodes :: keyCodes where
  "example_keyCodes \<equiv> \<lparr>ENTER = 13, SPACE = 32, TAB = 9\<rparr>"

abbreviation example_button :: "nat IconButtonEnd_Props" where
  "example_button \<equiv>
     \<lparr>accessibilityChecked = None, accessibilityHidden = None, accessibilityLabel = None,
      hoverStyle = Some hoverStyle_default, icon = cancel, onClick = Suc, pogPadding = None,
      role = None, tapStyle = None, tooltipText = None\<rparr>"

section \<open>Checkbox.tsx\<close>

datatype labelDisplay = visible | hidden

datatype checkbox_size = sm | md

record Checkbox_Props =
  cb_checked :: "bool option"
  cb_disabled :: "bool option"
  cb_errorMessage :: "string option"
  cb_helperText :: "string option"
  cb_id :: string
  cb_image :: "ReactNode option"
  cb_indeterminate :: "bool option"
  cb_label :: "string option"
  cb_labelDisplay :: "labelDisplay option"
  cb_name :: "string option"
  cb_onChange :: callback
  cb_onClick :: "callback option"
  cb_size :: "checkbox_size option"

text \<open>
  The props given to \<^verbatim>\<open>InternalCheckbox\<close> and to \<^verbatim>\<open>VRInternalCheckbox\<close>: the same
  fourteen attributes at both places of the source.
\<close>

record InternalCheckbox_Props =
  icb_ref :: "ref option"
  icb_checked :: bool
  icb_disabled :: bool
  icb_errorMessage :: "string option"
  icb_helperText :: "string option"
  icb_id :: string
  icb_image :: "ReactNode option"
  icb_indeterminate :: bool
  icb_label :: "string option"
  icb_labelDisplay :: labelDisplay
  icb_name :: "string option"
  icb_onChange :: callback
  icb_onClick :: "callback option"
  icb_size :: checkbox_size

datatype Checkbox_element =
  is_VRInternalCheckbox: VRInternalCheckbox (received: InternalCheckbox_Props)
| is_InternalCheckbox: InternalCheckbox (received: InternalCheckbox_Props)

text \<open>
  The hook \<^verbatim>\<open>useInExperiment\<close> is not among the sources at hand: its result,
  \<open>isInVRExperiment\<close>, is a parameter. The second argument of the \<^verbatim>\<open>forwardRef\<close>
  function is \<open>ref\<close>.
\<close>

definition Checkbox :: "bool \<Rightarrow> Checkbox_Props \<Rightarrow> ref option \<Rightarrow> Checkbox_element" where
  "Checkbox isInVRExperiment p ref =
     (let checked = (case cb_checked p of None \<Rightarrow> False | Some b \<Rightarrow> b);
          disabled = (case cb_disabled p of None \<Rightarrow> False | Some b \<Rightarrow> b);
          indeterminate = (case cb_indeterminate p of None \<Rightarrow> False | Some b \<Rightarrow> b);
          labelDisplay = (case cb_labelDisplay p of None \<Rightarrow> visible | Some d \<Rightarrow> d);
          size = (case cb_size p of None \<Rightarrow> md | Some z \<Rightarrow> z)
      in if isInVRExperiment then
           VRInternalCheckbox
             \<lparr>icb_ref = ref,
              icb_checked = checked,
              icb_disabled = disabled,
              icb_errorMessage = cb_errorMessage p,
              icb_helperText = cb_helperText p,
              icb_id = cb_id p,
              icb_image = cb_image p,
              icb_indeterminate = indeterminate,
              icb_label = cb_label p,
              icb_labelDisplay = labelDisplay,
              icb_name = cb_name p,
              icb_onChange = cb_onChange p,
              icb_onClick = cb_onClick p,
              icb_size = size\<rparr>
         else
           InternalCheckbox
             \<lparr>icb_ref = ref,
              icb_checked = checked,
              icb_disabled = disabled,
              icb_errorMessage = cb_errorMessage p,
              icb_helperText = cb_helperText p,
              icb_id = cb_id p,
              icb_image = cb_image p,
              icb_indeterminate = indeterminate,
              icb_label = cb_label p,
              icb_labelDisplay = labelDisplay,
              icb_name = cb_name p,
              icb_onChange = cb_onChange p,
              icb_onClick = cb_onClick p,
              icb_size = size\<rparr>)"

abbreviation example_checkbox :: Checkbox_Props where
  "example_checkbox \<equiv>
     \<lparr>cb_checked = Some True, cb_disabled = Some True, cb_errorMessage = None,
      cb_helperText = None, cb_id = ''terms'', cb_image = None, cb_indeterminate = Some True,
      cb_label = Some ''Accept'', cb_labelDisplay = None, cb_name = None, cb_onChange = 0,
      cb_onClick = None, cb_size = None\<rparr>"

abbreviation omitted_checkbox :: Checkbox_Props where
  "omitted_checkbox \<equiv>
     \<lparr>cb_checked = None, cb_disabled = None, cb_errorMessage = None,
      cb_helperText = None, cb_id = ''terms'', cb_image = None, cb_indeterminate = None,
      cb_label = None, cb_labelDisplay = None, cb_name = None, cb_onChange = 0,
      cb_onClick = None, cb_size = None\<rparr>"

section \<open>DatePicker.tsx: data\<close>

datatype direction = up | right | down | left

datatype selectList = month | year

datatype rangeSelector = range_start | range_end

datatype datepicker_size = size_md | size_lg

record DatePicker_Props =
  dp_disableMobileUI :: "bool option"
  dp_disabled :: "bool option"
  dp_errorMessage :: "string option"
  dp_excludeDates :: "date list option"
  dp_helperText :: "string option"
  dp_id :: string
  dp_idealDirection :: "direction option"
  dp_includeDates :: "date list option"
  dp_label :: "string option"
  dp_localeData :: "Locale option"
  dp_maxDate :: "date option"
  dp_minDate :: "date option"
  dp_name :: "string option"
  dp_nextRef :: "ref option"
  dp_onChange :: callback
  dp_placeholder :: "string option"
  dp_mobileOnAnimationEnd :: "callback option"
  dp_mobileZIndex :: "Indexable option"
  dp_rangeEndDate :: "date nullable"
  dp_rangeSelector :: "rangeSelector option"
  dp_rangeStartDate :: "date nullable"
  dp_readOnly :: "bool option"
  dp_selectLists :: "selectList list option"
  dp_size :: "datepicker_size option"
  dp_value :: "date nullable"
  dp_overrideRangeDateFix :: "bool option"

text \<open>
  The hooks \<^verbatim>\<open>useDeviceType\<close> and \<^verbatim>\<open>useDefaultLabel\<close> are not among the sources at
  hand: what they return is a parameter.
\<close>

record DatePicker_hooks =
  useDeviceType :: string
  accessibilityDismissButtonLabel :: string
  dismissButton :: string

text \<open>One mounted \<^verbatim>\<open>DatePicker\<close>: the \<^verbatim>\<open>useState<boolean>(false)\<close> cell.\<close>

record DatePicker_state =
  showMobileCalendar :: bool

type_synonym handler = "DatePicker_state \<Rightarrow> DatePicker_state"

definition DatePicker_mount :: DatePicker_state where
  "DatePicker_mount = \<lparr>showMobileCalendar = False\<rparr>"

definition setShowMobileCalendar :: "bool \<Rightarrow> handler" where
  "setShowMobileCalendar b s = s\<lparr>showMobileCalendar := b\<rparr>"

text \<open>
  The props \<^verbatim>\<open>InternalDatePicker\<close> is given at its three places in the source. A prop that
  one place leaves out is \<open>None\<close> there.
\<close>

record InternalDatePicker =
  idp_ref :: "ref option"
  idp_overrideRangeDateFix :: bool
  idp_disabled :: "bool option"
  idp_errorMessage :: "string option"
  idp_excludeDates :: "date list option"
  idp_helperText :: "string option"
  idp_id :: string
  idp_idealDirection :: direction
  idp_includeDates :: "date list option"
  idp_inline :: "bool option"
  idp_inputOnly :: "bool option"
  idp_label :: "string option"
  idp_localeData :: "Locale option"
  idp_maxDate :: "date option"
  idp_minDate :: "date option"
  idp_name :: "string option"
  idp_nextRef :: "ref option"
  idp_onChange :: callback
  idp_onFocus :: "handler option"
  idp_onSelect :: "handler option"
  idp_placeholder :: "string option"
  idp_rangeEndDate :: "date nullable"
  idp_rangeSelector :: "rangeSelector option"
  idp_rangeStartDate :: "date nullable"
  idp_readOnly :: "bool option"
  idp_selectLists :: "selectList list option"
  idp_size :: "datepicker_size option"
  idp_value :: "date nullable"

record 'a Flex =
  flex_alignItems :: string
  flex_direction :: string
  flex_gap :: nat
  flex_justifyContent :: string
  flex_width :: string
  flex_children :: 'a

record Button =
  btn_accessibilityLabel :: string
  btn_color :: string
  btn_onClick :: handler
  btn_size :: string
  btn_text :: string

text \<open>
  The footer and the children of the sheet are \<^verbatim>\<open>SheetMobile.DismissingElement\<close>s: functions
  of the \<^verbatim>\<open>onDismissStart\<close> the sheet hands them.
\<close>

record SheetMobile =
  sm_footer :: "handler \<Rightarrow> Button Flex"
  sm_heading :: string
  sm_onAnimationEnd :: "callback option"
  sm_onDismiss :: handler
  sm_padding :: string
  sm_showDismissButton :: bool
  sm_size :: string
  sm_children :: "handler \<Rightarrow> InternalDatePicker Flex"

record Layer =
  layer_zIndex :: "Indexable option"
  layer_children :: SheetMobile

text \<open>
  What \<^verbatim>\<open>DatePicker\<close> returns: on the mobile branch a fragment of the input-only picker and
  either the layer with the sheet or \<^verbatim>\<open>null\<close>; otherwise the picker alone.
\<close>

datatype DatePicker_element =
  is_Fragment: Fragment InternalDatePicker "Layer option"
| is_Plain: Plain InternalDatePicker

section \<open>DatePicker.tsx: the component\<close>

text \<open>
  The render function, with the defaults of its destructured props first. The effect that
  calls \<^verbatim>\<open>datePickerHandlers.onRender\<close> and the imperative handle on the caller's ref touch
  neither the state cell nor the returned element and are left out.
\<close>

definition DatePicker ::
  "DatePicker_hooks \<Rightarrow> DatePicker_Props \<Rightarrow> DatePicker_state \<Rightarrow> DatePicker_element" where
  "DatePicker h p s =
     (let disableMobileUI = (case dp_disableMobileUI p of None \<Rightarrow> False | Some b \<Rightarrow> b);
          idealDirection = (case dp_idealDirection p of None \<Rightarrow> down | Some d \<Rightarrow> d);
          overrideRangeDateFix = (case dp_overrideRangeDateFix p of None \<Rightarrow> False | Some b \<Rightarrow> b);
          deviceType = useDeviceType h;
          isMobile = (deviceType = ''mobile'')
      in if isMobile \<and> \<not> disableMobileUI then
           Fragment
             \<lparr>idp_ref = Some innerInputRef,
              idp_overrideRangeDateFix = overrideRangeDateFix,
              idp_disabled = dp_disabled p,
              idp_errorMessage = dp_errorMessage p,
              idp_excludeDates = dp_excludeDates p,
              idp_helperText = dp_helperText p,
              idp_id = dp_id p,
              idp_idealDirection = idealDirection,
              idp_includeDates = dp_includeDates p,
              idp_inline = None,
              idp_inputOnly = Some True,
              idp_label = dp_label p,
              idp_localeData = dp_localeData p,
              idp_maxDate = dp_maxDate p,
              idp_minDate = dp_minDate p,
              idp_name = dp_name p,
              idp_nextRef = dp_nextRef p,
              idp_onChange = dp_onChange p,
              idp_onFocus = Some (setShowMobileCalendar True),
              idp_onSelect = None,
              idp_placeholder = dp_placeholder p,
              idp_rangeEndDate = dp_rangeEndDate p,
              idp_rangeSelector = dp_rangeSelector p,
              idp_rangeStartDate = dp_rangeStartDate p,
              idp_readOnly = dp_readOnly p,
              idp_selectLists = dp_selectLists p,
              idp_size = dp_size p,
              idp_value = dp_value p\<rparr>
             (if showMobileCalendar s then
                Some
                  \<lparr>layer_zIndex = dp_mobileZIndex p,
                   layer_children =
                     \<lparr>sm_footer =
                        (\<lambda>onDismissStart.
                           \<lparr>flex_alignItems = ''center'',
                            flex_direction = ''column'',
                            flex_gap = 4,
                            flex_justifyContent = ''center'',
                            flex_width = ''100%'',
                            flex_children =
                              \<lparr>btn_accessibilityLabel = accessibilityDismissButtonLabel h,
                               btn_color = ''gray'',
                               btn_onClick = onDismissStart,
                               btn_size = ''lg'',
                               btn_text = dismissButton h\<rparr>\<rparr>),
                      sm_heading = '''',
                      sm_onAnimationEnd = dp_mobileOnAnimationEnd p,
                      sm_onDismiss = setShowMobileCalendar False,
                      sm_padding = ''none'',
                      sm_showDismissButton = False,
                      sm_size = ''auto'',
                      sm_children =
                        (\<lambda>onDismissStart.
                           \<lparr>flex_alignItems = ''center'',
                            flex_direction = ''column'',
                            flex_gap = 4,
                            flex_justifyContent = ''center'',
                            flex_width = ''100%'',
                            flex_children =
                              \<lparr>idp_ref = None,
                               idp_overrideRangeDateFix = overrideRangeDateFix,
                               idp_disabled = None,
                               idp_errorMessage = dp_errorMessage p,
                               idp_excludeDates = dp_excludeDates p,
                               idp_helperText = None,
                               idp_id = dp_id p,
                               idp_idealDirection = idealDirection,
                               idp_includeDates = dp_includeDates p,
                               idp_inline = Some True,
                               idp_inputOnly = None,
                               idp_label = None,
                               idp_localeData = dp_localeData p,
                               idp_maxDate = dp_maxDate p,
                               idp_minDate = dp_minDate p,
                               idp_name = None,
                               idp_nextRef = dp_nextRef p,
                               idp_onChange = dp_onChange p,
                               idp_onFocus = None,
                               idp_onSelect = Some onDismissStart,
                               idp_placeholder = None,
                               idp_rangeEndDate = dp_rangeEndDate p,
                               idp_rangeSelector = dp_rangeSelector p,
                               idp_rangeStartDate = dp_rangeStartDate p,
                               idp_readOnly = None,
                               idp_selectLists = dp_selectLists p,
                               idp_size = dp_size p,
                               idp_value = dp_value p\<rparr>\<rparr>)\<rparr>\<rparr>
              else None)
         else
           Plain
             \<lparr>idp_ref = Some innerInputRef,
              idp_overrideRangeDateFix = overrideRangeDateFix,
              idp_disabled = dp_disabled p,
              idp_errorMessage = dp_errorMessage p,
              idp_excludeDates = dp_excludeDates p,
              idp_helperText = dp_helperText p,
              idp_id = dp_id p,
              idp_idealDirection = idealDirection,
              idp_includeDates = dp_includeDates p,
              idp_inline = None,
              idp_inputOnly = None,
              idp_label = dp_label p,
              idp_localeData = dp_localeData p,
              idp_maxDate = dp_maxDate p,
              idp_minDate = dp_minDate p,
              idp_name = dp_name p,
              idp_nextRef = dp_nextRef p,
              idp_onChange = dp_onChange p,
              idp_onFocus = None,
              idp_onSelect = None,
              idp_placeholder = dp_placeholder p,
              idp_rangeEndDate = dp_rangeEndDate p,
              idp_rangeSelector = dp_rangeSelector p,
              idp_rangeStartDate = dp_rangeStartDate p,
              idp_readOnly = dp_readOnly p,
              idp_selectLists = dp_selectLists p,
              idp_size = dp_size p,
              idp_value = dp_value p\<rparr>)"

section \<open>DatePicker.tsx: the sheet and the events\<close>

text \<open>
  Modelled from the spec: \<^verbatim>\<open>SheetMobile\<close> is not among the sources at hand. The spec has
  the sheet leave on explicit dismissal (the user taps dismiss, selects a date, or the sheet's
  own close gesture fires); so the \<^verbatim>\<open>onDismissStart\<close> a sheet hands to its dismissing
  elements ends in the sheet's own \<^verbatim>\<open>onDismiss\<close>. The animation in between has no state
  of its own here.
\<close>

definition onDismissStart :: "SheetMobile \<Rightarrow> handler" where
  "onDismissStart sheet = sm_onDismiss sheet"

definition footer_button :: "SheetMobile \<Rightarrow> Button" where
  "footer_button sheet = flex_children (sm_footer sheet (onDismissStart sheet))"

definition sheet_calendar :: "SheetMobile \<Rightarrow> InternalDatePicker" where
  "sheet_calendar sheet = flex_children (sm_children sheet (onDismissStart sheet))"

text \<open>The sheet in a rendered \<^verbatim>\<open>DatePicker\<close>, if there is one, and the two visible states.\<close>

fun rendered_sheet :: "DatePicker_element \<Rightarrow> SheetMobile option" where
  "rendered_sheet (Fragment input None) = None"
| "rendered_sheet (Fragment input (Some layer)) = Some (layer_children layer)"
| "rendered_sheet (Plain picker) = None"

datatype sheet_state = Closed | OpenAsSheet

definition sheet_state_of :: "DatePicker_element \<Rightarrow> sheet_state" where
  "sheet_state_of e = (case rendered_sheet e of None \<Rightarrow> Closed | Some sheet \<Rightarrow> OpenAsSheet)"

text \<open>Every \<^verbatim>\<open>InternalDatePicker\<close> in a rendered \<^verbatim>\<open>DatePicker\<close>.\<close>

fun internalDatePickers :: "DatePicker_element \<Rightarrow> InternalDatePicker list" where
  "internalDatePickers (Fragment input None) = [input]"
| "internalDatePickers (Fragment input (Some layer)) = [input, sheet_calendar (layer_children layer)]"
| "internalDatePickers (Plain picker) = [picker]"

text \<open>
  The user's events. Each goes to the handler of the element that is rendered from the current
  state, and changes nothing when no rendered element has a handler for it: the input's
  \<open>onFocus\<close>, the \<open>onSelect\<close> of the calendar (the sheet's calendar while a sheet is
  rendered), the \<open>onClick\<close> of the button in the sheet's footer, and the sheet's
  \<open>onDismiss\<close> for its own close gesture.
\<close>

datatype DatePicker_event = FocusInput | SelectDate | TapDismiss | CloseGesture

fun call :: "handler option \<Rightarrow> handler" where
  "call None s = s"
| "call (Some f) s = f s"

fun dispatch :: "DatePicker_element \<Rightarrow> DatePicker_event \<Rightarrow> handler" where
  "dispatch (Plain picker) FocusInput s = call (idp_onFocus picker) s"
| "dispatch (Plain picker) SelectDate s = call (idp_onSelect picker) s"
| "dispatch (Plain picker) TapDismiss s = s"
| "dispatch (Plain picker) CloseGesture s = s"
| "dispatch (Fragment input sheet) FocusInput s = call (idp_onFocus input) s"
| "dispatch (Fragment input None) SelectDate s = call (idp_onSelect input) s"
| "dispatch (Fragment input None) TapDismiss s = s"
| "dispatch (Fragment input None) CloseGesture s = s"
| "dispatch (Fragment input (Some layer)) SelectDate s =
     call (idp_onSelect (sheet_calendar (layer_children layer))) s"
| "dispatch (Fragment input (Some layer)) TapDismiss s =
     btn_onClick (footer_button (layer_children layer)) s"
| "dispatch (Fragment input (Some layer)) CloseGesture s =
     sm_onDismiss (layer_children layer) s"

definition DatePicker_step ::
  "DatePicker_hooks \<Rightarrow> DatePicker_Props \<Rightarrow> DatePicker_state \<Rightarrow> DatePicker_event \<Rightarrow> DatePicker_state" where
  "DatePicker_step h p s e = dispatch (DatePicker h p s) e s"

definition DatePicker_run ::
  "DatePicker_hooks \<Rightarrow> DatePicker_Props \<Rightarrow> DatePicker_event list \<Rightarrow> DatePicker_state" where
  "DatePicker_run h p evs = foldl (DatePicker_step h p) DatePicker_mount evs"

abbreviation mobile_hooks :: DatePicker_hooks where
  "mobile_hooks \<equiv>
     \<lparr>useDeviceType = ''mobile'', accessibilityDismissButtonLabel = ''Close'',
      dismissButton = ''Close''\<rparr>"

abbreviation desktop_hooks :: DatePicker_hooks where
  "desktop_hooks \<equiv>
     \<lparr>useDeviceType = ''desktop'', accessibilityDismissButtonLabel = ''Close'',
      dismissButton = ''Close''\<rparr>"

abbreviation example_datepicker :: DatePicker_Props where
  "example_datepicker \<equiv>
     \<lparr>dp_disableMobileUI = None, dp_disabled = None, dp_errorMessage = None,
      dp_excludeDates = None, dp_helperText = None, dp_id = ''date'',
      dp_idealDirection = None, dp_includeDates = None, dp_label = None,
      dp_localeData = None, dp_maxDate = None, dp_minDate = None, dp_name = None,
      dp_nextRef = None, dp_onChange = 0, dp_placeholder = None,
      dp_mobileOnAnimationEnd = None, dp_mobileZIndex = None, dp_rangeEndDate = Undefined,
      dp_rangeSelector = None, dp_rangeStartDate = Undefined, dp_readOnly = None,
      dp_selectLists = None, dp_size = None, dp_value = Undefined,
      dp_overrideRangeDateFix = None\<rparr>"

section \<open>IconButtonEnd: what is rendered\<close>

lemma unwrap_MaybeTooltip: "unwrap (MaybeTooltip c t) = c"
  by (cases t) (simp_all add: MaybeTooltip_def)

lemma tapArea_IconButtonEnd:
  "tapArea (IconButtonEnd kc p s) =
     \<lparr>ta_accessibilityChecked = accessibilityChecked p,
      ta_accessibilityLabel = accessibilityLabel p,
      ta_onBlur = setFocused False,
      ta_onFocus = setFocused True,
      ta_onKeyDown = onKeyDown kc (onClick p),
      ta_onMouseEnter = setFocused True,
      ta_onMouseLeave = setFocused False,
      ta_onTap = invoke (onClick p),
      ta_role = role p,
      ta_rounding = ''circle'',
      ta_tabIndex = (if accessibilityHidden p = Some True then - 1 else 0),
      ta_tapStyle = tapStyle p,
      ta_children =
        \<lparr>pog_accessibilityLabel = '''',
         pog_bgColor =
           (if focused s \<and>
               (case hoverStyle p of None \<Rightarrow> hoverStyle_default | Some h \<Rightarrow> h) = hoverStyle_default
            then lightGray else transparent),
         pog_icon = icon p,
         pog_iconColor = ''darkGray'',
         pog_padding = (case pogPadding p of None \<Rightarrow> 1 | Some n \<Rightarrow> n),
         pog_size = ''xs''\<rparr>\<rparr>"
  by (simp add: tapArea_def IconButtonEnd_def unwrap_MaybeTooltip Let_def)

lemma is_Tooltip_MaybeTooltip: "is_Tooltip (MaybeTooltip c t) \<longleftrightarrow> truthy t"
  by (cases t) (simp_all add: MaybeTooltip_def)

lemma box_children_IconButtonEnd:
  "box_children (div_children (IconButtonEnd kc p s))
     = MaybeTooltip (tapArea (IconButtonEnd kc p s)) (of_optional (tooltipText p))"
  by (simp add: tapArea_IconButtonEnd) (simp add: IconButtonEnd_def Let_def)

lemma is_Tooltip_IconButtonEnd:
  "is_Tooltip (box_children (div_children (IconButtonEnd kc p s)))
     \<longleftrightarrow> truthy (of_optional (tooltipText p))"
  by (simp only: box_children_IconButtonEnd is_Tooltip_MaybeTooltip)

lemma rendered_bgColor_eq:
  "rendered_bgColor (IconButtonEnd kc p s) =
     (if focused s \<and> hoverStyle p \<noteq> Some hoverStyle_none then lightGray else transparent)"
proof (cases "hoverStyle p")
  case None
  then show ?thesis by (simp add: rendered_bgColor_def tapArea_IconButtonEnd)
next
  case (Some h)
  then show ?thesis by (cases h) (simp_all add: rendered_bgColor_def tapArea_IconButtonEnd)
qed

lemma step_simps:
  "step kc p s Focus = s\<lparr>focused := True\<rparr>"
  "step kc p s MouseEnter = s\<lparr>focused := True\<rparr>"
  "step kc p s Blur = s\<lparr>focused := False\<rparr>"
  "step kc p s MouseLeave = s\<lparr>focused := False\<rparr>"
  "step kc p s Tap = s\<lparr>caller := onClick p (caller s)\<rparr>"
  "step kc p s (KeyDown k) =
     (if k = ENTER kc \<or> k = SPACE kc then s\<lparr>caller := onClick p (caller s)\<rparr> else s)"
  by (simp_all add: step_def tapArea_IconButtonEnd setFocused_def invoke_def onKeyDown_def Let_def)

lemma run_snoc: "run kc p (evs @ [e]) c = step kc p (run kc p evs c) e"
  by (simp add: run_def)

lemma focused_run: "focused (run kc p evs c) = latestFeedbackEnters evs"
proof (induction evs rule: rev_induct)
  case Nil
  show ?case by (simp add: run_def mount_def latestFeedbackEnters_def feedback_def)
next
  case (snoc e evs)
  then show ?case
    by (cases e) (auto simp add: run_snoc step_simps latestFeedbackEnters_def feedback_def)
qed

lemma latestFeedbackEnters_inside_or_focus:
  "latestFeedbackEnters evs \<Longrightarrow> pointerInside evs \<or> holdsFocus evs"
proof (induction evs rule: rev_induct)
  case Nil
  then show ?case by (simp add: latestFeedbackEnters_def feedback_def)
next
  case (snoc e evs)
  then show ?case
    by (cases e)
       (auto simp add: latestFeedbackEnters_def feedback_def pointerInside_def holdsFocus_def)
qed

lemma caller_feedback: "caller (foldl (step kc p) s (feedback evs)) = caller s"
proof (induction evs rule: rev_induct)
  case Nil
  show ?case by (simp add: feedback_def)
next
  case (snoc e evs)
  then show ?case by (cases e) (simp_all add: feedback_def step_simps)
qed

section \<open>IconButtonEnd: the key-down handler\<close>

text \<open>
  C1. With the code of Tab different from the codes of Enter and of Space, the key-down handler
  of the tap-target does this to the event and to the mounted instance: on Enter or Space it
  invokes \<open>onClick\<close> once (the caller's world becomes \<open>onClick\<close> of what it was) and prevents
  the default; on Tab it leaves both the event and the instance as they were, so \<open>onClick\<close>
  is not invoked and the default is not prevented; on any other key it prevents the default
  and leaves the instance as it was.
\<close>

theorem keydown_enter_space_tab_other:
  assumes "TAB kc \<noteq> ENTER kc" and "TAB kc \<noteq> SPACE kc"
  shows "(keyCode event = ENTER kc \<or> keyCode event = SPACE kc \<longrightarrow>
            ta_onKeyDown (tapArea (IconButtonEnd kc p r)) event s
              = (event\<lparr>defaultPrevented := True\<rparr>, s\<lparr>caller := onClick p (caller s)\<rparr>))
       \<and> (keyCode event = TAB kc \<longrightarrow>
            ta_onKeyDown (tapArea (IconButtonEnd kc p r)) event s = (event, s))
       \<and> (keyCode event \<noteq> ENTER kc \<and> keyCode event \<noteq> SPACE kc \<and> keyCode event \<noteq> TAB kc \<longrightarrow>
            ta_onKeyDown (tapArea (IconButtonEnd kc p r)) event s
              = (event\<lparr>defaultPrevented := True\<rparr>, s))"
  using assms
  by (auto simp add: tapArea_IconButtonEnd onKeyDown_def preventDefault_def invoke_def Let_def)

theorem keydown_enter_space_tab_other_witness:
  "TAB example_keyCodes \<noteq> ENTER example_keyCodes
   \<and> TAB example_keyCodes \<noteq> SPACE example_keyCodes
   \<and> ta_onKeyDown (tapArea (IconButtonEnd example_keyCodes example_button (mount 0)))
        \<lparr>keyCode = 13, defaultPrevented = False\<rparr> (mount 0)
       = (\<lparr>keyCode = 13, defaultPrevented = True\<rparr>, \<lparr>focused = False, caller = 1\<rparr>)
   \<and> ta_onKeyDown (tapArea (IconButtonEnd example_keyCodes example_button (mount 0)))
        \<lparr>keyCode = 32, defaultPrevented = False\<rparr> (mount 0)
       = (\<lparr>keyCode = 32, defaultPrevented = True\<rparr>, \<lparr>focused = False, caller = 1\<rparr>)
   \<and> ta_onKeyDown (tapArea (IconButtonEnd example_keyCodes example_button (mount 0)))
        \<lparr>keyCode = 9, defaultPrevented = False\<rparr> (mount 0)
       = (\<lparr>keyCode = 9, defaultPrevented = False\<rparr>, \<lparr>focused = False, caller = 0\<rparr>)
   \<and> ta_onKeyDown (tapArea (IconButtonEnd example_keyCodes example_button (mount 0)))
        \<lparr>keyCode = 65, defaultPrevented = False\<rparr> (mount 0)
       = (\<lparr>keyCode = 65, defaultPrevented = True\<rparr>, \<lparr>focused = False, caller = 0\<rparr>)"
proof -
  have h1: "TAB example_keyCodes \<noteq> ENTER example_keyCodes" by simp
  have h2: "TAB example_keyCodes \<noteq> SPACE example_keyCodes" by simp
  note k = keydown_enter_space_tab_other
             [OF h1 h2, where p = example_button and r = "mount 0" and s = "mount 0"]
  show ?thesis
    using h1 h2
      k [where event = "\<lparr>keyCode = 13, defaultPrevented = False\<rparr>"]
      k [where event = "\<lparr>keyCode = 32, defaultPrevented = False\<rparr>"]
      k [where event = "\<lparr>keyCode = 9, defaultPrevented = False\<rparr>"]
      k [where event = "\<lparr>keyCode = 65, defaultPrevented = False\<rparr>"]
    by (simp add: mount_def)
qed

section \<open>IconButtonEnd: hidden from keyboard and assistive technology\<close>

text \<open>
  C6. When \<open>accessibilityHidden\<close> is true, the tab index of the rendered tap-target is \<open>-1\<close>
  and the \<^verbatim>\<open>Box\<close> that holds the tap-target has \<^verbatim>\<open>aria-hidden\<close> set to true.
\<close>

theorem accessibilityHidden_tabIndex_aria_hidden:
  assumes "accessibilityHidden p = Some True"
  shows "ta_tabIndex (tapArea (IconButtonEnd kc p s)) = - 1
       \<and> box_aria_hidden (div_children (IconButtonEnd kc p s)) = Some True"
proof
  show "ta_tabIndex (tapArea (IconButtonEnd kc p s)) = - 1"
    using assms by (simp add: tapArea_IconButtonEnd)
  show "box_aria_hidden (div_children (IconButtonEnd kc p s)) = Some True"
    using assms by (simp add: IconButtonEnd_def Let_def)
qed

theorem accessibilityHidden_tabIndex_aria_hidden_witness:
  "accessibilityHidden (example_button\<lparr>accessibilityHidden := Some True\<rparr>) = Some True
   \<and> ta_tabIndex (tapArea (IconButtonEnd example_keyCodes
        (example_button\<lparr>accessibilityHidden := Some True\<rparr>) (mount 0))) = - 1
   \<and> box_aria_hidden (div_children (IconButtonEnd example_keyCodes
        (example_button\<lparr>accessibilityHidden := Some True\<rparr>) (mount 0))) = Some True"
proof -
  have h: "accessibilityHidden (example_button\<lparr>accessibilityHidden := Some True\<rparr>) = Some True"
    by simp
  show ?thesis
    using h accessibilityHidden_tabIndex_aria_hidden [OF h, of example_keyCodes "mount 0"]
    by simp
qed

section \<open>IconButtonEnd: focus and hover events\<close>

text \<open>
  C8. The handlers of the tap-target for focus, blur, mouse-enter and mouse-leave set the
  \<open>focused\<close> cell and nothing else: the caller's world is what it was, so \<open>onClick\<close> has not
  been invoked. The same holds after any sequence of such events.
\<close>

theorem focus_hover_never_activate:
  "ta_onFocus (tapArea (IconButtonEnd kc p r)) s = s\<lparr>focused := True\<rparr>
   \<and> ta_onBlur (tapArea (IconButtonEnd kc p r)) s = s\<lparr>focused := False\<rparr>
   \<and> ta_onMouseEnter (tapArea (IconButtonEnd kc p r)) s = s\<lparr>focused := True\<rparr>
   \<and> ta_onMouseLeave (tapArea (IconButtonEnd kc p r)) s = s\<lparr>focused := False\<rparr>
   \<and> caller (ta_onFocus (tapArea (IconButtonEnd kc p r)) s) = caller s
   \<and> caller (ta_onBlur (tapArea (IconButtonEnd kc p r)) s) = caller s
   \<and> caller (ta_onMouseEnter (tapArea (IconButtonEnd kc p r)) s) = caller s
   \<and> caller (ta_onMouseLeave (tapArea (IconButtonEnd kc p r)) s) = caller s
   \<and> caller (foldl (step kc p) s (feedback evs)) = caller s"
  by (simp add: tapArea_IconButtonEnd setFocused_def caller_feedback)

section \<open>IconButtonEnd: the tooltip\<close>

text \<open>
  C10. \<^verbatim>\<open>MaybeTooltip\<close> returns a \<^verbatim>\<open>Tooltip\<close> exactly when the text is truthy; for
  \<^verbatim>\<open>undefined\<close>, \<^verbatim>\<open>null\<close> and the empty string it returns the children bare, and for a
  non-empty string the inline tooltip with that text around the same children. In
  \<^verbatim>\<open>IconButtonEnd\<close> the wrapped element is the tap-target, and the tap-target does not
  depend on \<open>tooltipText\<close>.
\<close>

theorem tooltip_iff_truthy:
  "(is_Tooltip (MaybeTooltip c t) \<longleftrightarrow> truthy t)
   \<and> MaybeTooltip c Undefined = Bare c
   \<and> MaybeTooltip c Null = Bare c
   \<and> MaybeTooltip c (Defined '''') = Bare c
   \<and> (str \<noteq> '''' \<longrightarrow> MaybeTooltip c (Defined str) = Tooltip True str c)
   \<and> unwrap (MaybeTooltip c t) = c
   \<and> box_children (div_children (IconButtonEnd kc p s))
       = MaybeTooltip (tapArea (IconButtonEnd kc p s)) (of_optional (tooltipText p))
   \<and> (is_Tooltip (box_children (div_children (IconButtonEnd kc p s)))
        \<longleftrightarrow> truthy (of_optional (tooltipText p)))
   \<and> tapArea (IconButtonEnd kc (p\<lparr>tooltipText := x\<rparr>) s) = tapArea (IconButtonEnd kc p s)"
proof -
  have e: "MaybeTooltip c Undefined = Bare c \<and> MaybeTooltip c Null = Bare c
       \<and> MaybeTooltip c (Defined '''') = Bare c
       \<and> (str \<noteq> '''' \<longrightarrow> MaybeTooltip c (Defined str) = Tooltip True str c)"
    by (simp add: MaybeTooltip_def)
  have f: "tapArea (IconButtonEnd kc (p\<lparr>tooltipText := x\<rparr>) s) = tapArea (IconButtonEnd kc p s)"
    by (simp add: tapArea_IconButtonEnd)
  show ?thesis
    using e f is_Tooltip_MaybeTooltip [of c t] unwrap_MaybeTooltip [of c t]
      box_children_IconButtonEnd [of kc p s] is_Tooltip_IconButtonEnd [of kc p s]
    by blast
qed

theorem tooltip_iff_truthy_witness:
  "''Clear'' \<noteq> ''''
   \<and> MaybeTooltip (0::nat) (Defined ''Clear'') = Tooltip True ''Clear'' 0
   \<and> box_children (div_children (IconButtonEnd example_keyCodes
        (example_button\<lparr>tooltipText := Some ''Clear''\<rparr>) (mount 0)))
       = Tooltip True ''Clear'' (tapArea (IconButtonEnd example_keyCodes example_button (mount 0)))
   \<and> box_children (div_children (IconButtonEnd example_keyCodes
        (example_button\<lparr>tooltipText := Some ''''\<rparr>) (mount 0)))
       = Bare (tapArea (IconButtonEnd example_keyCodes example_button (mount 0)))
   \<and> box_children (div_children (IconButtonEnd example_keyCodes example_button (mount 0)))
       = Bare (tapArea (IconButtonEnd example_keyCodes example_button (mount 0)))"
proof -
  have h: "''Clear'' \<noteq> ''''" by simp
  note t = tooltip_iff_truthy [where str = "''Clear''" and kc = example_keyCodes and s = "mount 0"]
  show ?thesis
    using h
      t [where c = "0::nat" and p = "example_button\<lparr>tooltipText := Some ''Clear''\<rparr>"
         and x = None and t = Undefined]
      t [where c = "tapArea (IconButtonEnd example_keyCodes example_button (mount 0))"
         and p = "example_button\<lparr>tooltipText := Some ''''\<rparr>" and x = None and t = Undefined]
      t [where c = "tapArea (IconButtonEnd example_keyCodes example_button (mount 0))"
         and p = "example_button" and x = None and t = Undefined]
    by (simp add: tapArea_IconButtonEnd)
qed

section \<open>IconButtonEnd: the background of the icon\<close>

text \<open>
  C4, as stated, fails. After a focus, a mouse-enter and a mouse-leave, with
  \<open>hoverStyle\<close> \<open>default\<close>, the element still holds the keyboard focus, and the background
  is transparent: the mouse-leave has cleared the one \<open>focused\<close> cell that focus and hover
  share.
\<close>

theorem bgColor_while_focus_held_counterexample:
  "hoverStyle example_button = Some hoverStyle_default
   \<and> holdsFocus [Focus, MouseEnter, MouseLeave]
   \<and> rendered_bgColor
        (IconButtonEnd example_keyCodes example_button
           (run example_keyCodes example_button [Focus, MouseEnter, MouseLeave] 0))
       = transparent
   \<and> \<not> (rendered_bgColor
            (IconButtonEnd example_keyCodes example_button
               (run example_keyCodes example_button [Focus, MouseEnter, MouseLeave] 0))
           = lightGray
          \<longleftrightarrow> hoverStyle example_button = Some hoverStyle_default
              \<and> (pointerInside [Focus, MouseEnter, MouseLeave]
                   \<or> holdsFocus [Focus, MouseEnter, MouseLeave]))"
  by (simp add: holdsFocus_def rendered_bgColor_eq run_def step_simps mount_def)

text \<open>
  C4, amended. After any sequence of events from the mount, the background is \<open>lightGray\<close>
  exactly when \<open>hoverStyle\<close> is \<open>default\<close> (given, or left out) and the latest focus, blur,
  mouse-enter or mouse-leave event was a focus or a mouse-enter; in every other state it is
  \<open>transparent\<close>. So the background is \<open>lightGray\<close> only when \<open>hoverStyle\<close> is \<open>default\<close>
  and the pointer is inside or the element holds the focus.
\<close>

theorem bgColor_follows_latest_feedback:
  "rendered_bgColor (IconButtonEnd kc p (run kc p evs c))
     = (if hoverStyle p \<noteq> Some hoverStyle_none \<and> latestFeedbackEnters evs
        then lightGray else transparent)
   \<and> (rendered_bgColor (IconButtonEnd kc p (run kc p evs c)) = lightGray
        \<longrightarrow> hoverStyle p \<noteq> Some hoverStyle_none \<and> (pointerInside evs \<or> holdsFocus evs))"
  using latestFeedbackEnters_inside_or_focus [of evs]
  by (auto simp add: rendered_bgColor_eq focused_run)

theorem bgColor_follows_latest_feedback_witness:
  "rendered_bgColor
     (IconButtonEnd example_keyCodes example_button
        (run example_keyCodes example_button [Focus, Blur, MouseEnter, KeyDown 65] 0))
     = lightGray
   \<and> latestFeedbackEnters [Focus, Blur, MouseEnter, KeyDown 65]
   \<and> pointerInside [Focus, Blur, MouseEnter, KeyDown 65]
   \<and> rendered_bgColor
        (IconButtonEnd example_keyCodes (example_button\<lparr>hoverStyle := Some hoverStyle_none\<rparr>)
           (run example_keyCodes (example_button\<lparr>hoverStyle := Some hoverStyle_none\<rparr>)
              [Focus, Blur, MouseEnter, KeyDown 65] 0))
       = transparent"
  using
    bgColor_follows_latest_feedback
      [of example_keyCodes example_button "[Focus, Blur, MouseEnter, KeyDown 65]" 0]
    bgColor_follows_latest_feedback
      [of example_keyCodes "example_button\<lparr>hoverStyle := Some hoverStyle_none\<rparr>"
          "[Focus, Blur, MouseEnter, KeyDown 65]" 0]
  by (simp add: latestFeedbackEnters_def feedback_def pointerInside_def)

section \<open>IconButtonEnd: one activation for one user action\<close>

text \<open>
  C5. With the code of Tab different from the codes of Enter and of Space: a pointer click,
  a press of Enter and a press of Space each invoke \<open>onClick\<close> once (the caller's world
  becomes \<open>onClick\<close> of what it was, and nothing else changes); and every user action
  reaches the tap-target as one event only, a tap for a pointer click and a key-down for a
  key press, so the \<open>onTap\<close> path and the key-down path never both run for one action.
\<close>

theorem one_activation_per_action:
  assumes "TAB kc \<noteq> ENTER kc" and "TAB kc \<noteq> SPACE kc"
  shows "(a = PointerClick \<or> a = KeyPress (ENTER kc) \<or> a = KeyPress (SPACE kc) \<longrightarrow>
            perform kc p a s = s\<lparr>caller := onClick p (caller s)\<rparr>)
       \<and> dispatched kc (tapArea (IconButtonEnd kc p s)) a s
            = (case a of PointerClick \<Rightarrow> [Tap] | KeyPress k \<Rightarrow> [KeyDown k])"
  using assms
  by (cases a)
     (auto simp add: perform_def tapArea_IconButtonEnd step_simps synthesized_def onKeyDown_def
        preventDefault_def Let_def)

theorem one_activation_per_action_witness:
  "TAB example_keyCodes \<noteq> ENTER example_keyCodes
   \<and> TAB example_keyCodes \<noteq> SPACE example_keyCodes
   \<and> perform example_keyCodes example_button PointerClick (mount 0)
       = \<lparr>focused = False, caller = 1\<rparr>
   \<and> perform example_keyCodes example_button (KeyPress 13) (mount 0)
       = \<lparr>focused = False, caller = 1\<rparr>
   \<and> perform example_keyCodes example_button (KeyPress 32) (mount 0)
       = \<lparr>focused = False, caller = 1\<rparr>
   \<and> dispatched example_keyCodes
        (tapArea (IconButtonEnd example_keyCodes example_button (mount 0))) (KeyPress 13) (mount 0)
       = [KeyDown 13]"
proof -
  have h1: "TAB example_keyCodes \<noteq> ENTER example_keyCodes" by simp
  have h2: "TAB example_keyCodes \<noteq> SPACE example_keyCodes" by simp
  note k = one_activation_per_action [OF h1 h2, where p = example_button and s = "mount 0"]
  show ?thesis
    using h1 h2 k [where a = PointerClick] k [where a = "KeyPress 13"] k [where a = "KeyPress 32"]
    by (simp add: mount_def)
qed

section \<open>Checkbox: the two implementations\<close>

text \<open>
  C3. Outside the experiment \<^verbatim>\<open>Checkbox\<close> renders \<^verbatim>\<open>InternalCheckbox\<close>, in the experiment
  \<^verbatim>\<open>VRInternalCheckbox\<close>, and both receive the same props. A \<open>checked\<close>, \<open>disabled\<close> or
  \<open>indeterminate\<close> the caller supplies is received as it is; one the caller leaves out is
  received as false.
\<close>

theorem Checkbox_same_props_either_way:
  "is_InternalCheckbox (Checkbox False p ref)
   \<and> is_VRInternalCheckbox (Checkbox True p ref)
   \<and> received (Checkbox True p ref) = received (Checkbox False p ref)
   \<and> (cb_checked p = Some c \<longrightarrow> icb_checked (received (Checkbox False p ref)) = c)
   \<and> (cb_disabled p = Some d \<longrightarrow> icb_disabled (received (Checkbox False p ref)) = d)
   \<and> (cb_indeterminate p = Some i \<longrightarrow> icb_indeterminate (received (Checkbox False p ref)) = i)
   \<and> (cb_checked p = None \<longrightarrow> icb_checked (received (Checkbox False p ref)) = False)
   \<and> (cb_disabled p = None \<longrightarrow> icb_disabled (received (Checkbox False p ref)) = False)
   \<and> (cb_indeterminate p = None \<longrightarrow> icb_indeterminate (received (Checkbox False p ref)) = False)"
  by (simp add: Checkbox_def Let_def)

theorem Checkbox_same_props_either_way_witness:
  "cb_checked example_checkbox = Some True
   \<and> cb_disabled example_checkbox = Some True
   \<and> cb_indeterminate example_checkbox = Some True
   \<and> is_InternalCheckbox (Checkbox False example_checkbox None)
   \<and> is_VRInternalCheckbox (Checkbox True example_checkbox None)
   \<and> icb_checked (received (Checkbox False example_checkbox None)) = True
   \<and> icb_disabled (received (Checkbox False example_checkbox None)) = True
   \<and> icb_indeterminate (received (Checkbox False example_checkbox None)) = True
   \<and> icb_checked (received (Checkbox True example_checkbox None)) = True
   \<and> cb_checked omitted_checkbox = None
   \<and> cb_disabled omitted_checkbox = None
   \<and> cb_indeterminate omitted_checkbox = None
   \<and> icb_checked (received (Checkbox False omitted_checkbox None)) = False
   \<and> icb_disabled (received (Checkbox False omitted_checkbox None)) = False
   \<and> icb_indeterminate (received (Checkbox False omitted_checkbox None)) = False"
  using
    Checkbox_same_props_either_way
      [where p = example_checkbox and ref = None and c = True and d = True and i = True]
    Checkbox_same_props_either_way
      [where p = omitted_checkbox and ref = None and c = True and d = True and i = True]
  by simp

section \<open>DatePicker: the two branches\<close>

lemma mobile_sheet:
  assumes "useDeviceType h = ''mobile''" and "dp_disableMobileUI p \<noteq> Some True"
  shows "is_Fragment (DatePicker h p s)"
    and "sheet_state_of (DatePicker h p s) = (if showMobileCalendar s then OpenAsSheet else Closed)"
  using assms
  by (cases "dp_disableMobileUI p"; simp add: DatePicker_def sheet_state_of_def Let_def)+

lemma mobile_step:
  assumes "useDeviceType h = ''mobile''" and "dp_disableMobileUI p \<noteq> Some True"
  shows "DatePicker_step h p s FocusInput = s\<lparr>showMobileCalendar := True\<rparr>"
    and "DatePicker_step h p s SelectDate =
           (if showMobileCalendar s then s\<lparr>showMobileCalendar := False\<rparr> else s)"
    and "DatePicker_step h p s TapDismiss =
           (if showMobileCalendar s then s\<lparr>showMobileCalendar := False\<rparr> else s)"
    and "DatePicker_step h p s CloseGesture =
           (if showMobileCalendar s then s\<lparr>showMobileCalendar := False\<rparr> else s)"
  using assms
  by (cases "dp_disableMobileUI p";
      simp add: DatePicker_step_def DatePicker_def Let_def sheet_calendar_def footer_button_def
        onDismissStart_def setShowMobileCalendar_def)+

lemma off_mobile_plain:
  assumes "useDeviceType h \<noteq> ''mobile'' \<or> dp_disableMobileUI p = Some True"
  shows "is_Plain (DatePicker h p s)"
    and "rendered_sheet (DatePicker h p s) = None"
  using assms by (auto simp add: DatePicker_def Let_def)

lemma off_mobile_step:
  assumes "useDeviceType h \<noteq> ''mobile'' \<or> dp_disableMobileUI p = Some True"
  shows "DatePicker_step h p s e = s"
  using assms by (cases e) (auto simp add: DatePicker_step_def DatePicker_def Let_def)

lemma idealDirection_forwarded:
  "i \<in> set (internalDatePickers (DatePicker h p s)) \<Longrightarrow>
     idp_idealDirection i = (case dp_idealDirection p of None \<Rightarrow> down | Some d \<Rightarrow> d)"
  by (auto simp add: DatePicker_def Let_def sheet_calendar_def split: if_splits)

lemma disableMobileUI_default:
  "dp_disableMobileUI p = None \<Longrightarrow>
     DatePicker h p s = DatePicker h (p\<lparr>dp_disableMobileUI := Some False\<rparr>) s"
  by (simp add: DatePicker_def Let_def)

section \<open>DatePicker: the sheet on a mobile device\<close>

text \<open>
  C2. On the device type \<open>mobile\<close>, with \<open>disableMobileUI\<close> false or left out: at the mount
  the state is \<open>Closed\<close> (no sheet is rendered); from \<open>Closed\<close>, the input receiving the
  focus gives \<open>OpenAsSheet\<close> (the sheet is rendered); from \<open>OpenAsSheet\<close>, selecting a date
  in the sheet's calendar gives \<open>Closed\<close>, and so does the button in the sheet's footer.
\<close>

theorem mobile_sheet_opens_on_focus_closes_on_select_or_dismiss:
  assumes "useDeviceType h = ''mobile''" and "dp_disableMobileUI p \<noteq> Some True"
  shows "sheet_state_of (DatePicker h p DatePicker_mount) = Closed
       \<and> (sheet_state_of (DatePicker h p s) = Closed \<longrightarrow>
            sheet_state_of (DatePicker h p (DatePicker_step h p s FocusInput)) = OpenAsSheet)
       \<and> (sheet_state_of (DatePicker h p s) = OpenAsSheet \<longrightarrow>
            sheet_state_of (DatePicker h p (DatePicker_step h p s SelectDate)) = Closed
          \<and> sheet_state_of (DatePicker h p (DatePicker_step h p s TapDismiss)) = Closed)"
  by (simp add: mobile_sheet [OF assms] mobile_step [OF assms] DatePicker_mount_def)

theorem mobile_sheet_opens_on_focus_closes_on_select_or_dismiss_witness:
  "useDeviceType mobile_hooks = ''mobile''
   \<and> dp_disableMobileUI example_datepicker \<noteq> Some True
   \<and> sheet_state_of (DatePicker mobile_hooks example_datepicker DatePicker_mount) = Closed
   \<and> sheet_state_of (DatePicker mobile_hooks example_datepicker
        (DatePicker_run mobile_hooks example_datepicker [FocusInput])) = OpenAsSheet
   \<and> sheet_state_of (DatePicker mobile_hooks example_datepicker
        (DatePicker_run mobile_hooks example_datepicker [FocusInput, SelectDate])) = Closed
   \<and> sheet_state_of (DatePicker mobile_hooks example_datepicker
        (DatePicker_run mobile_hooks example_datepicker [FocusInput, TapDismiss])) = Closed"
proof -
  have h1: "useDeviceType mobile_hooks = ''mobile''" by simp
  have h2: "dp_disableMobileUI example_datepicker \<noteq> Some True" by simp
  note t = mobile_sheet_opens_on_focus_closes_on_select_or_dismiss [OF h1 h2]
  have opened: "DatePicker_step mobile_hooks example_datepicker DatePicker_mount FocusInput
      = \<lparr>showMobileCalendar = True\<rparr>"
    by (simp add: mobile_step [OF h1 h2] DatePicker_mount_def)
  show ?thesis
    using h1 h2 t [of DatePicker_mount] t [of "\<lparr>showMobileCalendar = True\<rparr>"]
    by (simp add: DatePicker_run_def opened)
qed

section \<open>DatePicker: no sheet off the mobile branch\<close>

text \<open>
  C7. On a device type other than \<open>mobile\<close>, or with \<open>disableMobileUI\<close> true: after every
  sequence of events from the mount, and in fact from every state, \<^verbatim>\<open>DatePicker\<close> renders
  the plain \<^verbatim>\<open>InternalDatePicker\<close> and no sheet, and no event changes the state.
\<close>

theorem no_sheet_off_mobile:
  assumes "useDeviceType h \<noteq> ''mobile'' \<or> dp_disableMobileUI p = Some True"
  shows "is_Plain (DatePicker h p (DatePicker_run h p evs))
       \<and> rendered_sheet (DatePicker h p (DatePicker_run h p evs)) = None
       \<and> sheet_state_of (DatePicker h p (DatePicker_run h p evs)) = Closed
       \<and> is_Plain (DatePicker h p s)
       \<and> rendered_sheet (DatePicker h p s) = None
       \<and> DatePicker_step h p s e = s"
  by (simp add: off_mobile_plain [OF assms] off_mobile_step [OF assms] sheet_state_of_def)

theorem no_sheet_off_mobile_witness:
  "(useDeviceType desktop_hooks \<noteq> ''mobile'')
   \<and> is_Plain (DatePicker desktop_hooks example_datepicker
        (DatePicker_run desktop_hooks example_datepicker [FocusInput, SelectDate, FocusInput]))
   \<and> rendered_sheet (DatePicker desktop_hooks example_datepicker
        (DatePicker_run desktop_hooks example_datepicker [FocusInput, SelectDate, FocusInput])) = None
   \<and> dp_disableMobileUI (example_datepicker\<lparr>dp_disableMobileUI := Some True\<rparr>) = Some True
   \<and> is_Plain (DatePicker mobile_hooks (example_datepicker\<lparr>dp_disableMobileUI := Some True\<rparr>)
        (DatePicker_run mobile_hooks (example_datepicker\<lparr>dp_disableMobileUI := Some True\<rparr>)
           [FocusInput, TapDismiss, FocusInput]))
   \<and> rendered_sheet (DatePicker mobile_hooks (example_datepicker\<lparr>dp_disableMobileUI := Some True\<rparr>)
        (DatePicker_run mobile_hooks (example_datepicker\<lparr>dp_disableMobileUI := Some True\<rparr>)
           [FocusInput, TapDismiss, FocusInput])) = None"
proof -
  have h1: "useDeviceType desktop_hooks \<noteq> ''mobile''
      \<or> dp_disableMobileUI example_datepicker = Some True"
    by simp
  have h2: "useDeviceType mobile_hooks \<noteq> ''mobile''
      \<or> dp_disableMobileUI (example_datepicker\<lparr>dp_disableMobileUI := Some True\<rparr>) = Some True"
    by simp
  show ?thesis
    using
      no_sheet_off_mobile [OF h1, of "[FocusInput, SelectDate, FocusInput]" DatePicker_mount FocusInput]
      no_sheet_off_mobile [OF h2, of "[FocusInput, TapDismiss, FocusInput]" DatePicker_mount FocusInput]
    by simp
qed

section \<open>DatePicker: defaults of the props\<close>

text \<open>
  C9. When \<open>idealDirection\<close> is left out, every \<^verbatim>\<open>InternalDatePicker\<close> that \<^verbatim>\<open>DatePicker\<close>
  renders (the plain one, the input-only one, the calendar in the sheet) is given
  \<open>down\<close>; when it is given, each of them is given that value. When \<open>disableMobileUI\<close> is
  left out, \<^verbatim>\<open>DatePicker\<close> renders what it renders for \<open>disableMobileUI\<close> false.
\<close>

theorem idealDirection_default_down_forwarded:
  "(dp_idealDirection p = None \<longrightarrow>
      (\<forall>i \<in> set (internalDatePickers (DatePicker h p s)). idp_idealDirection i = down))
   \<and> (dp_idealDirection p = Some d \<longrightarrow>
      (\<forall>i \<in> set (internalDatePickers (DatePicker h p s)). idp_idealDirection i = d))
   \<and> (dp_disableMobileUI p = None \<longrightarrow>
      DatePicker h p s = DatePicker h (p\<lparr>dp_disableMobileUI := Some False\<rparr>) s)"
  using idealDirection_forwarded [of _ h p s] disableMobileUI_default [of p h s]
  by simp

theorem idealDirection_default_down_forwarded_witness:
  "dp_idealDirection example_datepicker = None
   \<and> dp_disableMobileUI example_datepicker = None
   \<and> map idp_idealDirection
        (internalDatePickers (DatePicker desktop_hooks example_datepicker DatePicker_mount))
       = [down]
   \<and> map idp_idealDirection
        (internalDatePickers (DatePicker mobile_hooks example_datepicker DatePicker_mount))
       = [down]
   \<and> map idp_idealDirection
        (internalDatePickers
           (DatePicker mobile_hooks example_datepicker \<lparr>showMobileCalendar = True\<rparr>))
       = [down, down]
   \<and> map idp_idealDirection
        (internalDatePickers
           (DatePicker mobile_hooks (example_datepicker\<lparr>dp_idealDirection := Some up\<rparr>)
              \<lparr>showMobileCalendar = True\<rparr>))
       = [up, up]
   \<and> is_Fragment (DatePicker mobile_hooks example_datepicker DatePicker_mount)
   \<and> DatePicker mobile_hooks example_datepicker DatePicker_mount
       = DatePicker mobile_hooks (example_datepicker\<lparr>dp_disableMobileUI := Some False\<rparr>)
           DatePicker_mount"
  using
    idealDirection_default_down_forwarded
      [of example_datepicker desktop_hooks DatePicker_mount up]
    idealDirection_default_down_forwarded
      [of example_datepicker mobile_hooks DatePicker_mount up]
    idealDirection_default_down_forwarded
      [of example_datepicker mobile_hooks "\<lparr>showMobileCalendar = True\<rparr>" up]
    idealDirection_default_down_forwarded
      [of "example_datepicker\<lparr>dp_idealDirection := Some up\<rparr>" mobile_hooks
          "\<lparr>showMobileCalendar = True\<rparr>" up]
  by (simp add: DatePicker_def DatePicker_mount_def sheet_calendar_def Let_def)

end
